theory Spec2Isabelle
  imports Complex_Main "HOL-Library.Word" "HOL-Library.Char_ord" "HOL-Library.List_Lexorder"
begin

section \<open>Go values, errors and formatting\<close>

text \<open>
  A Go \<open>interface{}\<close> as it comes out of \<open>encoding/json\<close> or \<open>yaml.v3\<close>: \<open>nil\<close>, a string,
  an integer (YAML only), a \<open>float64\<close> (every finite \<open>float64\<close> is a real number), a bool, a
  \<open>map[string]interface{}\<close> or a slice. Maps are association lists read with \<open>map_of\<close>.
\<close>

datatype go_value =
    VNil
  | VStr string
  | VInt int
  | VFloat64 real
  | VBool bool
  | VMap "(string \<times> go_value) list"
  | VSlice "go_value list"

type_synonym go_map = "(string \<times> go_value) list"

text \<open>\<open>m[k] = v\<close> on a Go map: the binding of \<open>k\<close> is replaced, or added.\<close>

fun put :: "string \<Rightarrow> 'v \<Rightarrow> (string \<times> 'v) list \<Rightarrow> (string \<times> 'v) list" where
  "put k v [] = [(k, v)]"
| "put k v ((k', v') # m) = (if k' = k then (k, v) # m else (k', v') # put k v m)"

text \<open>
  Go errors. \<open>errors.New\<close> and \<open>fmt.Errorf\<close> without \<open>%w\<close> build an \<open>*errors.errorString\<close>
  that carries a message only; \<open>fmt.Errorf\<close> with one \<open>%w\<close> builds a \<open>*fmt.wrapError\<close>
  holding the message and the wrapped error; \<open>LibError\<close> stands for an error value of a
  library type (\<open>*fs.PathError\<close>, \<open>*url.Error\<close>, the decoders' errors) with its message;
  \<open>ctx.Err()\<close> is one of the two sentinels of package \<open>context\<close>.
\<close>

datatype go_error =
    ErrorString string
  | WrapError string go_error
  | LibError string
  | ContextCanceled
  | ContextDeadlineExceeded

fun error_message :: "go_error \<Rightarrow> string" where
  "error_message (ErrorString s) = s"
| "error_message (WrapError s e) = s"
| "error_message (LibError s) = s"
| "error_message ContextCanceled = ''context canceled''"
| "error_message ContextDeadlineExceeded = ''context deadline exceeded''"

text \<open>The dynamic type of an error value: what a type switch or \<open>errors.As\<close> can see.\<close>

datatype error_type = T_errorString | T_wrapError | T_library | T_contextSentinel

fun type_of_error :: "go_error \<Rightarrow> error_type" where
  "type_of_error (ErrorString s) = T_errorString"
| "type_of_error (WrapError s e) = T_wrapError"
| "type_of_error (LibError s) = T_library"
| "type_of_error ContextCanceled = T_contextSentinel"
| "type_of_error ContextDeadlineExceeded = T_contextSentinel"

text \<open>\<open>fmt.Errorf("prefix: %w", err)\<close>.\<close>

definition wrapf :: "string \<Rightarrow> go_error \<Rightarrow> go_error" where
  "wrapf prefix e = WrapError (prefix @ error_message e) e"

text \<open>\<open>%d\<close> of a non-negative integer.\<close>

definition digit_char :: "nat \<Rightarrow> char" where
  "digit_char d = ''0123456789'' ! d"

fun show_nat :: "nat \<Rightarrow> string" where
  "show_nat n = (if n < 10 then [digit_char n] else show_nat (n div 10) @ [digit_char (n mod 10)])"

declare show_nat.simps [simp del]

text \<open>\<open>%T\<close> of an \<open>interface{}\<close> value.\<close>

fun type_name :: "go_value \<Rightarrow> string" where
  "type_name VNil = ''<nil>''"
| "type_name (VStr s) = ''string''"
| "type_name (VInt i) = ''int''"
| "type_name (VFloat64 x) = ''float64''"
| "type_name (VBool b) = ''bool''"
| "type_name (VMap m) = ''map[string]interface {}''"
| "type_name (VSlice xs) = ''[]interface {}''"

section \<open>The provider's predictions\<close>

text \<open>\<open>types.ReplicatePredictionResponse\<close> and the status constants.\<close>

record prediction =
  pred_ID :: string
  pred_Version :: string
  pred_Status :: string
  pred_Input :: go_map
  pred_Output :: go_value
  pred_Error :: go_value
  pred_Logs :: string
  pred_MetricsEnd :: go_value
  pred_CreatedAt :: string
  pred_StartedAt :: string
  pred_CompletedAt :: string
  pred_URLs :: "(string \<times> string) list"

definition StatusStarting :: string where "StatusStarting = ''starting''"
definition StatusProcessing :: string where "StatusProcessing = ''processing''"
definition StatusSucceeded :: string where "StatusSucceeded = ''succeeded''"
definition StatusFailed :: string where "StatusFailed = ''failed''"
definition StatusCanceled :: string where "StatusCanceled = ''canceled''"

text \<open>
  What is left of the Go libraries is a parameter of the model:
  \<open>verbs0 s\<close> is the text \<open>fmt.Errorf(s)\<close> produces from the format string \<open>s\<close> with no
  operand (\<open>s\<close> itself when \<open>s\<close> has no \<open>%\<close>), \<open>show_v\<close> is \<open>%v\<close> of a value that is not a
  string, \<open>show_duration\<close> is \<open>%v\<close> of a \<open>time.Duration\<close> given in nanoseconds;
  \<open>decode_prediction\<close> is \<open>json.Unmarshal\<close> of a body into a \<open>ReplicatePredictionResponse\<close>
  (the decoder's error text, or the struct), \<open>decode_object\<close> is \<open>json.Unmarshal\<close> into a
  \<open>map[string]interface{}\<close> (\<open>None\<close> when it returns an error); \<open>base64\<close> is
  \<open>base64.StdEncoding.EncodeToString\<close> and \<open>detect_content_type\<close> is \<open>http.DetectContentType\<close>.
\<close>

record golib =
  verbs0 :: "string \<Rightarrow> string"
  show_v :: "go_value \<Rightarrow> string"
  show_duration :: "int \<Rightarrow> string"
  decode_prediction :: "string \<Rightarrow> string + prediction"
  decode_object :: "string \<Rightarrow> go_map option"
  base64 :: "string \<Rightarrow> string"
  detect_content_type :: "string \<Rightarrow> string"

text \<open>\<open>fmt.Sprintf("%v", v)\<close>: a string is printed as it is.\<close>

fun sprint_v :: "golib \<Rightarrow> go_value \<Rightarrow> string" where
  "sprint_v L (VStr s) = s"
| "sprint_v L v = show_v L v"

text \<open>\<open>strings.Contains\<close>, \<open>strings.ReplaceAll(s, "-", "")\<close> and \<open>filepath.Join\<close> of a
  clean directory path and one plain name (nothing is left for \<open>filepath.Clean\<close> to do).\<close>

fun contains :: "string \<Rightarrow> string \<Rightarrow> bool" where
  "contains [] sub = (sub = [])"
| "contains (c # s) sub = (take (length sub) (c # s) = sub \<or> contains s sub)"

definition remove_dashes :: "string \<Rightarrow> string" where
  "remove_dashes s = filter (\<lambda>c. c \<noteq> CHR ''-'') s"

definition path_join :: "string \<Rightarrow> string \<Rightarrow> string" where
  "path_join dir name = (if name = [] then dir else if dir = [] then name else dir @ ''/'' @ name)"





section \<open>The Replicate client\<close>

text \<open>
  What one HTTP exchange with the provider can come to: \<open>http.NewRequestWithContext\<close>
  rejects the request (nothing is sent), \<open>httpClient.Do\<close> fails, \<open>io.ReadAll\<close> fails after
  the status line, or a status code and a body arrive.
\<close>

datatype http_outcome =
    BadRequest string
  | TransportError string
  | ReadError nat string
  | Response nat string

fun requests_sent :: "http_outcome \<Rightarrow> nat" where
  "requests_sent (BadRequest e) = 0"
| "requests_sent r = 1"

definition replicateAPIURL :: string where
  "replicateAPIURL = ''https://api.replicate.com/v1''"

text \<open>The endpoint \<open>CreatePrediction\<close> posts to: a version hash has a colon.\<close>

definition create_url :: "string \<Rightarrow> string" where
  "create_url modelVersion =
     (if contains modelVersion '':'' then replicateAPIURL @ ''/predictions''
      else replicateAPIURL @ ''/models/'' @ modelVersion @ ''/predictions'')"

text \<open>
  \<open>CreatePrediction\<close>, given what the exchange comes to. \<open>json.Marshal\<close> of a request whose
  input holds strings, integers and booleans does not fail.
\<close>

definition CreatePrediction :: "golib \<Rightarrow> http_outcome \<Rightarrow> go_error + prediction" where
  "CreatePrediction L r =
     (case r of
        BadRequest e \<Rightarrow> Inl (wrapf ''failed to create request: '' (LibError e))
      | TransportError e \<Rightarrow> Inl (wrapf ''failed to send request: '' (LibError e))
      | ReadError code e \<Rightarrow> Inl (wrapf ''failed to read response: '' (LibError e))
      | Response code respBody \<Rightarrow>
          if code = 402 then
            (case decode_object L respBody of
               Some errorResp \<Rightarrow>
                 (case map_of errorResp ''detail'' of
                    Some (VStr detail) \<Rightarrow> Inl (ErrorString (''billing issue: '' @ detail))
                  | _ \<Rightarrow> Inl (ErrorString (''billing issue (status 402): '' @ respBody)))
             | None \<Rightarrow> Inl (ErrorString (''billing issue (status 402): '' @ respBody)))
          else if code \<noteq> 201 \<and> code \<noteq> 200 then
            Inl (ErrorString (''API error (status '' @ show_nat code @ ''): '' @ respBody))
          else
            (case decode_prediction L respBody of
               Inl e \<Rightarrow> Inl (wrapf ''failed to unmarshal response: '' (LibError e))
             | Inr p \<Rightarrow> Inr p))"

definition GetPrediction :: "golib \<Rightarrow> http_outcome \<Rightarrow> go_error + prediction" where
  "GetPrediction L r =
     (case r of
        BadRequest e \<Rightarrow> Inl (wrapf ''failed to create request: '' (LibError e))
      | TransportError e \<Rightarrow> Inl (wrapf ''failed to send request: '' (LibError e))
      | ReadError code e \<Rightarrow> Inl (wrapf ''failed to read response: '' (LibError e))
      | Response code respBody \<Rightarrow>
          if code \<noteq> 200 then
            Inl (ErrorString (''API error (status '' @ show_nat code @ ''): '' @ respBody))
          else
            (case decode_prediction L respBody of
               Inl e \<Rightarrow> Inl (wrapf ''failed to unmarshal response: '' (LibError e))
             | Inr p \<Rightarrow> Inr p))"

text \<open>
  The message of the \<open>StatusFailed\<close> branch of \<open>WaitForCompletion\<close>:
  \<^verbatim>\<open>
  errMsg := "prediction failed"
  if prediction.Error != nil {
      if errStr, ok := prediction.Error.(string); ok { errMsg = errStr }
      else if errMap, ok := prediction.Error.(map[string]interface{}); ok {
          if msg, exists := errMap["message"]; exists { errMsg = fmt.Sprintf("%v", msg) } } }
  return prediction, fmt.Errorf(errMsg)
  \<close>
  \<open>errMsg\<close> is the format string of \<open>fmt.Errorf\<close>.
\<close>

definition failure_errMsg :: "golib \<Rightarrow> go_value \<Rightarrow> string" where
  "failure_errMsg L err =
     (case err of
        VNil \<Rightarrow> ''prediction failed''
      | VStr errStr \<Rightarrow> errStr
      | VMap errMap \<Rightarrow>
          (case map_of errMap ''message'' of
             Some msg \<Rightarrow> sprint_v L msg
           | None \<Rightarrow> ''prediction failed'')
      | _ \<Rightarrow> ''prediction failed'')"

text \<open>
  The loop of \<open>WaitForCompletion\<close> blocks in a \<open>select\<close> on the context and on a two-second
  ticker. What the environment does to one call is a list of events, in order: the context
  is done (with \<open>ctx.Err()\<close>), or the ticker fires at a time \<open>time.Now()\<close> reads, in
  nanoseconds, and the one \<open>GetPrediction\<close> of that iteration comes to an exchange. The
  result is \<open>None\<close> while the loop has not returned when the events end; otherwise the
  prediction, the error and \<open>pollCount\<close>.
\<close>

datatype event =
    CtxDone go_error
  | Tick int http_outcome

type_synonym wait_result = "prediction option \<times> go_error option \<times> nat"

definition Minute :: int where
  "Minute = 60000000000"

definition wait_deadline :: "int \<Rightarrow> int option \<Rightarrow> int \<Rightarrow> int" where
  "wait_deadline now ctx_deadline timeout =
     (if timeout = 0 then (case ctx_deadline of Some d \<Rightarrow> d | None \<Rightarrow> now + 10 * Minute)
      else now + timeout)"

fun poll_loop :: "golib \<Rightarrow> int \<Rightarrow> int \<Rightarrow> nat \<Rightarrow> event list \<Rightarrow> wait_result option" where
  "poll_loop L deadline timeout pollCount [] = None"
| "poll_loop L deadline timeout pollCount (CtxDone e # evs) = Some (None, Some e, pollCount)"
| "poll_loop L deadline timeout pollCount (Tick now r # evs) =
     (if deadline < now then
        Some (case GetPrediction L r of Inl e \<Rightarrow> None | Inr p \<Rightarrow> Some p,
              Some (ErrorString (''operation timed out after '' @ show_duration L timeout)),
              Suc pollCount)
      else
        (case GetPrediction L r of
           Inl e \<Rightarrow> Some (None, Some e, Suc pollCount)
         | Inr p \<Rightarrow>
             if pred_Status p = StatusSucceeded then Some (Some p, None, Suc pollCount)
             else if pred_Status p = StatusFailed then
               Some (Some p, Some (ErrorString (verbs0 L (failure_errMsg L (pred_Error p)))), Suc pollCount)
             else if pred_Status p = StatusCanceled then
               Some (Some p, Some (ErrorString ''prediction was canceled''), Suc pollCount)
             else poll_loop L deadline timeout (Suc pollCount) evs))"

definition WaitForCompletion ::
  "golib \<Rightarrow> int \<Rightarrow> int option \<Rightarrow> int \<Rightarrow> event list \<Rightarrow> wait_result option" where
  "WaitForCompletion L now ctx_deadline timeout evs =
     poll_loop L (wait_deadline now ctx_deadline timeout) timeout 0 evs"

text \<open>The requests the loop has sent when it returns: one for each tick it consumed.\<close>

fun polls_sent :: "golib \<Rightarrow> int \<Rightarrow> event list \<Rightarrow> nat" where
  "polls_sent L deadline [] = 0"
| "polls_sent L deadline (CtxDone e # evs) = 0"
| "polls_sent L deadline (Tick now r # evs) =
     requests_sent r +
     (if deadline < now then 0
      else (case GetPrediction L r of
              Inl e \<Rightarrow> 0
            | Inr p \<Rightarrow>
                if pred_Status p = StatusSucceeded \<or> pred_Status p = StatusFailed
                   \<or> pred_Status p = StatusCanceled then 0
                else polls_sent L deadline evs))"

section \<open>The storage\<close>

text \<open>
  The root folder holds one entry per name: a regular file, or a folder with its
  \<open>metadata.yaml\<close> and its other files (name and content). The list is in the order
  \<open>os.ReadDir\<close> returns, sorted by name. \<open>metadata.yaml\<close> is absent, cannot be read, holds
  text that \<open>yaml.Unmarshal\<close> rejects, or holds a document: \<open>yaml.Marshal\<close> followed by
  \<open>yaml.Unmarshal\<close> gives back the map of strings, integers, booleans and maps it was given.
\<close>

datatype metadata_file =
    NoFile
  | Unreadable string
  | Malformed string
  | Yaml go_map

datatype dir_entry =
    RegularFile
  | Folder metadata_file "(string \<times> string) list"

text \<open>
  The state the operations read and change: the entries of the root folder, the error of
  \<open>os.ReadDir\<close> on it if it fails, how many UUIDs \<open>uuid.New\<close> has drawn, how many requests
  went to the provider and how many downloads \<open>http.Get\<close> started.
\<close>

record world =
  rootFolder :: string
  entries :: "(string \<times> dir_entry) list"
  readdir_error :: "string option"
  uuids_drawn :: nat
  api_requests :: nat
  downloads :: nat

text \<open>
  The environment of one call: the UUID that the \<open>n\<close>-th call of \<open>uuid.New\<close> returns, what
  \<open>http.Get\<close> of a URL comes to, what \<open>os.ReadFile\<close> of a path outside the root folder
  returns (its error text, or the content), \<open>time.Now().Format(time.RFC3339)\<close>, and the error of
  \<open>os.WriteFile\<close>/\<open>os.Create\<close> and of \<open>io.Copy\<close> when they fail.
\<close>

record env =
  uuid_source :: "nat \<Rightarrow> 128 word"
  http_get :: "string \<Rightarrow> http_outcome"
  read_file :: "string \<Rightarrow> string + string"
  now_rfc3339 :: string
  write_error :: "string option"
  copy_error :: "string option"

text \<open>\<open>uuid.UUID.String\<close>: 32 lower-case hexadecimal digits in groups of 8-4-4-4-12.\<close>

definition hex_char :: "nat \<Rightarrow> char" where
  "hex_char d = ''0123456789abcdef'' ! d"

definition nibble :: "128 word \<Rightarrow> nat \<Rightarrow> nat" where
  "nibble u i = unat (drop_bit (4 * (31 - i)) u) mod 16"

definition hex32 :: "128 word \<Rightarrow> string" where
  "hex32 u = map (\<lambda>i. hex_char (nibble u i)) [0..<32]"

definition uuid_string :: "128 word \<Rightarrow> string" where
  "uuid_string u =
     (let h = hex32 u
      in take 8 h @ ''-'' @ take 4 (drop 8 h) @ ''-'' @ take 4 (drop 12 h) @ ''-''
         @ take 4 (drop 16 h) @ ''-'' @ drop 20 h)"

text \<open>
  \<^verbatim>\<open>
  fullUUID := uuid.New().String()
  return strings.ReplaceAll(fullUUID, "-", "")[:8]
  \<close>
  The slice \<open>[:8]\<close> is within the 32 characters that are left.
\<close>

definition GenerateStorageID :: "env \<Rightarrow> world \<Rightarrow> string \<times> world" where
  "GenerateStorageID E w =
     (let fullUUID = uuid_string (uuid_source E (uuids_drawn w))
      in (take 8 (remove_dashes fullUUID), w\<lparr>uuids_drawn := Suc (uuids_drawn w)\<rparr>))"

definition GetStoragePath :: "world \<Rightarrow> string \<Rightarrow> string" where
  "GetStoragePath w storageID = path_join (rootFolder w) storageID"

text \<open>A new folder takes its place in the sorted listing.\<close>

fun add_entry :: "string \<Rightarrow> dir_entry \<Rightarrow> (string \<times> dir_entry) list \<Rightarrow> (string \<times> dir_entry) list" where
  "add_entry n e [] = [(n, e)]"
| "add_entry n e ((n', e') # es) =
     (if n < n' then (n, e) # (n', e') # es else (n', e') # add_entry n e es)"

text \<open>\<open>os.MkdirAll\<close> succeeds on a folder that exists and fails on a regular file.\<close>

definition CreateStorageFolder :: "world \<Rightarrow> string \<Rightarrow> go_error + (string \<times> world)" where
  "CreateStorageFolder w storageID =
     (let folderPath = path_join (rootFolder w) storageID
      in case map_of (entries w) storageID of
           Some RegularFile \<Rightarrow>
             Inl (wrapf ''failed to create storage folder: ''
                    (LibError (''mkdir '' @ folderPath @ '': not a directory'')))
         | Some (Folder m fs) \<Rightarrow> Inr (folderPath, w)
         | None \<Rightarrow> Inr (folderPath, w\<lparr>entries := add_entry storageID (Folder NoFile []) (entries w)\<rparr>))"

definition set_metadata :: "string \<Rightarrow> metadata_file \<Rightarrow> world \<Rightarrow> world" where
  "set_metadata storageID m w =
     (case map_of (entries w) storageID of
        Some (Folder m0 fs) \<Rightarrow> w\<lparr>entries := put storageID (Folder m fs) (entries w)\<rparr>
      | _ \<Rightarrow> w)"

definition write_file :: "string \<Rightarrow> string \<Rightarrow> string \<Rightarrow> world \<Rightarrow> world" where
  "write_file storageID name content w =
     (case map_of (entries w) storageID of
        Some (Folder m fs) \<Rightarrow> w\<lparr>entries := put storageID (Folder m (put name content fs)) (entries w)\<rparr>
      | _ \<Rightarrow> w)"

text \<open>
  \<open>SaveVideoFromURL\<close>: the path and the size, or the error. \<open>os.Create\<close> truncates the file;
  when \<open>io.Copy\<close> fails the file is left empty here.
\<close>

definition video_ext :: "string \<Rightarrow> string" where
  "video_ext url =
     (if contains url ''.webm'' then ''.webm''
      else if contains url ''.gif'' then ''.gif''
      else ''.mp4'')"

definition video_filename :: "string \<Rightarrow> string \<Rightarrow> string" where
  "video_filename url filename =
     (let filename = (if filename = [] then ''video'' else filename)
      in if \<not> contains filename ''.'' then filename @ video_ext url else filename)"

definition SaveVideoFromURL ::
  "env \<Rightarrow> world \<Rightarrow> string \<Rightarrow> string \<Rightarrow> string \<Rightarrow> (go_error + (string \<times> int)) \<times> world" where
  "SaveVideoFromURL E w url storageID filename =
     (case CreateStorageFolder w storageID of
        Inl err \<Rightarrow> (Inl err, w)
      | Inr (folderPath, w1) \<Rightarrow>
          let name = video_filename url filename;
              outputPath = path_join folderPath name;
              w2 = w1\<lparr>downloads := Suc (downloads w1)\<rparr>
          in case http_get E url of
               Response code body \<Rightarrow>
                 if code \<noteq> 200 then
                   (Inl (ErrorString (''failed to download video: status '' @ show_nat code)), w2)
                 else
                   (case write_error E of
                      Some e \<Rightarrow> (Inl (wrapf ''failed to create output file: '' (LibError e)), w2)
                    | None \<Rightarrow>
                        (case copy_error E of
                           Some e \<Rightarrow>
                             (Inl (wrapf ''failed to save video: '' (LibError e)),
                              write_file storageID name [] w2)
                         | None \<Rightarrow>
                             (Inr (outputPath, int (length body)),
                              write_file storageID name body w2)))
             | ReadError code e \<Rightarrow>
                 if code \<noteq> 200 then
                   (Inl (ErrorString (''failed to download video: status '' @ show_nat code)), w2)
                 else
                   (case write_error E of
                      Some e' \<Rightarrow> (Inl (wrapf ''failed to create output file: '' (LibError e')), w2)
                    | None \<Rightarrow>
                        (Inl (wrapf ''failed to save video: '' (LibError e)),
                         write_file storageID name [] w2))
             | TransportError e \<Rightarrow> (Inl (wrapf ''failed to download video: '' (LibError e)), w2)
             | BadRequest e \<Rightarrow> (Inl (wrapf ''failed to download video: '' (LibError e)), w1))"

text \<open>What \<open>os.ReadFile\<close> finds at \<open>rootFolder/storageID/metadata.yaml\<close>.\<close>

definition metadata_at :: "world \<Rightarrow> string \<Rightarrow> metadata_file" where
  "metadata_at w storageID =
     (case map_of (entries w) storageID of
        None \<Rightarrow> NoFile
      | Some RegularFile \<Rightarrow> Unreadable ''not a directory''
      | Some (Folder m fs) \<Rightarrow> m)"

text \<open>
  \<^verbatim>\<open>
  data, err := os.ReadFile(metadataPath)
  if err != nil {
      if os.IsNotExist(err) { return make(map[string]interface{}), nil }
      return nil, fmt.Errorf("failed to read metadata: %w", err) }
  var metadata map[string]interface{}
  if err := yaml.Unmarshal(data, &metadata); err != nil {
      return nil, fmt.Errorf("failed to unmarshal metadata: %w", err) }
  return metadata, nil
  \<close>
\<close>

definition LoadMetadata :: "world \<Rightarrow> string \<Rightarrow> go_error + go_map" where
  "LoadMetadata w storageID =
     (case metadata_at w storageID of
        NoFile \<Rightarrow> Inr []
      | Unreadable e \<Rightarrow> Inl (wrapf ''failed to read metadata: '' (LibError e))
      | Malformed e \<Rightarrow> Inl (wrapf ''failed to unmarshal metadata: '' (LibError e))
      | Yaml metadata \<Rightarrow> Inr metadata)"

text \<open>
  \<^verbatim>\<open>
  folderPath, err := s.CreateStorageFolder(storageID)
  if err != nil { return err }
  metadata["generated_at"] = time.Now().Format(time.RFC3339)
  data, err := yaml.Marshal(metadata)
  ...
  if err := os.WriteFile(metadataPath, data, 0644); err != nil {
      return fmt.Errorf("failed to save metadata: %w", err) }
  return nil
  \<close>
  \<open>yaml.Marshal\<close> of a map of strings, integers, booleans and such maps does not fail. The
  file is written whole: what it held before is not read.
\<close>

definition SaveMetadata :: "env \<Rightarrow> world \<Rightarrow> string \<Rightarrow> go_map \<Rightarrow> go_error option \<times> world" where
  "SaveMetadata E w storageID metadata =
     (case CreateStorageFolder w storageID of
        Inl err \<Rightarrow> (Some err, w)
      | Inr (folderPath, w1) \<Rightarrow>
          let metadata = put ''generated_at'' (VStr (now_rfc3339 E)) metadata
          in case write_error E of
               Some e \<Rightarrow> (Some (wrapf ''failed to save metadata: '' (LibError e)), w1)
             | None \<Rightarrow> (None, set_metadata storageID (Yaml metadata) w1))"




section \<open>The generator\<close>

record ModelConfig =
  cfg_ID :: string
  cfg_Name :: string
  cfg_Type :: string
  cfg_DefaultRes :: string
  cfg_MaxDuration :: int
  cfg_Features :: "string list"

definition ModelConfigs :: "(string \<times> ModelConfig) list" where
  "ModelConfigs =
     [(''wan-t2v-fast'',
       \<lparr>cfg_ID = ''wan-video/wan-2.2-t2v-fast'', cfg_Name = ''Wan 2.2 Fast Text-to-Video'',
        cfg_Type = ''t2v'', cfg_DefaultRes = ''480p'', cfg_MaxDuration = 0,
        cfg_Features = [''fast'', ''affordable'', ''go_fast'']\<rparr>),
      (''wan-i2v-fast'',
       \<lparr>cfg_ID = ''wan-video/wan-2.2-i2v-fast'', cfg_Name = ''Wan 2.2 Fast Image-to-Video'',
        cfg_Type = ''i2v'', cfg_DefaultRes = ''480p'', cfg_MaxDuration = 0,
        cfg_Features = [''fast'', ''affordable'', ''go_fast'']\<rparr>),
      (''veo3'',
       \<lparr>cfg_ID = ''google/veo-3'', cfg_Name = ''Google Veo 3'',
        cfg_Type = ''both'', cfg_DefaultRes = ''720p'', cfg_MaxDuration = 0,
        cfg_Features = [''premium'', ''audio'', ''style_preservation'', ''negative_prompt'']\<rparr>),
      (''kling-master'',
       \<lparr>cfg_ID = ''kwaivgi/kling-v2.1-master'', cfg_Name = ''Kling 2.1 Master'',
        cfg_Type = ''both'', cfg_DefaultRes = ''1080p'', cfg_MaxDuration = 10,
        cfg_Features = [''high_quality'', ''duration_control'', ''negative_prompt'']\<rparr>)]"

definition GetModelConfig :: "string \<Rightarrow> ModelConfig option" where
  "GetModelConfig alias = map_of ModelConfigs alias"

definition IsTextToVideoModel :: "string \<Rightarrow> bool" where
  "IsTextToVideoModel alias =
     (case map_of ModelConfigs alias of
        Some config \<Rightarrow> cfg_Type config = ''t2v'' \<or> cfg_Type config = ''both''
      | None \<Rightarrow> False)"


record VideoParams =
  Prompt :: string
  Model :: string
  Resolution :: string
  AspectRatio :: string
  Filename :: string
  NegativePrompt :: string
  Duration :: int
  ImagePath :: string
  NumFrames :: int
  FramesPerSecond :: int
  GoFast :: bool
  SampleShift :: real

text \<open>
  \<open>VideoResult\<close> with the one field of \<open>VideoMetrics\<close> that the operations fill from their
  data, \<open>FileSize\<close>; \<open>GenerationTime\<close> is a reading of the wall clock and is left out.
\<close>

record VideoResult =
  res_ID :: string
  res_FilePath :: string
  res_Model :: string
  res_ModelName :: string
  res_PredictionID :: string
  res_Parameters :: go_map
  res_FileSize :: int
  res_Status :: string

definition buildTextToVideoInput :: "VideoParams \<Rightarrow> ModelConfig \<Rightarrow> go_map" where
  "buildTextToVideoInput params config =
     (let input = put ''prompt'' (VStr (Prompt params)) [];
          input = (if Resolution params \<noteq> [] then put ''resolution'' (VStr (Resolution params)) input
                   else put ''resolution'' (VStr (cfg_DefaultRes config)) input);
          input = (if AspectRatio params \<noteq> [] then put ''aspect_ratio'' (VStr (AspectRatio params)) input
                   else input)
      in if Model params = ''wan-t2v-fast'' then
           put ''optimize_prompt'' (VBool False)
             (put ''sample_shift'' (VInt 12)
               (put ''frames_per_second'' (VInt 16)
                 (put ''num_frames'' (VInt 81)
                   (put ''go_fast'' (VBool True) input))))
         else if Model params = ''veo3'' then
           (if NegativePrompt params \<noteq> [] then put ''negative_prompt'' (VStr (NegativePrompt params)) input
            else input)
         else if Model params = ''kling-master'' then
           (let input = (if 0 < Duration params then put ''duration'' (VInt (Duration params)) input
                         else put ''duration'' (VInt 5) input)
            in if NegativePrompt params \<noteq> [] then put ''negative_prompt'' (VStr (NegativePrompt params)) input
               else input)
         else input)"

text \<open>
  \<open>GenerateTextToVideo\<close>, given what the one exchange of \<open>CreatePrediction\<close> comes to. A
  failure of \<open>SaveMetadata\<close> is logged and the call goes on.
\<close>

definition GenerateTextToVideo ::
  "golib \<Rightarrow> env \<Rightarrow> world \<Rightarrow> VideoParams \<Rightarrow> http_outcome \<Rightarrow> (go_error + VideoResult) \<times> world" where
  "GenerateTextToVideo L E w params r =
     (case GetModelConfig (Model params) of
        None \<Rightarrow> (Inl (ErrorString (''unknown model: '' @ Model params)), w)
      | Some modelConfig \<Rightarrow>
          if \<not> IsTextToVideoModel (Model params) then
            (Inl (ErrorString (''model '' @ Model params @ '' does not support text-to-video'')), w)
          else
            let input = buildTextToVideoInput params modelConfig;
                (storageID, w1) = GenerateStorageID E w;
                w2 = w1\<lparr>api_requests := api_requests w1 + requests_sent r\<rparr>
            in case CreatePrediction L r of
                 Inl err \<Rightarrow> (Inl (wrapf ''failed to create prediction: '' err), w2)
               | Inr prediction \<Rightarrow>
                   let metadata =
                         [(''operation'', VStr ''text_to_video''),
                          (''model'', VStr (Model params)),
                          (''model_id'', VStr (cfg_ID modelConfig)),
                          (''prompt'', VStr (Prompt params)),
                          (''parameters'', VMap input),
                          (''prediction_id'', VStr (pred_ID prediction)),
                          (''status'', VStr (pred_Status prediction))];
                       (err, w3) = SaveMetadata E w2 storageID metadata
                   in (Inr \<lparr>res_ID = storageID, res_FilePath = [], res_Model = Model params,
                            res_ModelName = cfg_Name modelConfig,
                            res_PredictionID = pred_ID prediction, res_Parameters = input,
                            res_FileSize = 0, res_Status = pred_Status prediction\<rparr>, w3))"



text \<open>
  \<open>ContinueGeneration\<close>. A run is blocked while \<open>WaitForCompletion\<close> has not returned,
  panics on the nil prediction that \<open>prediction.Status\<close> would dereference, or returns the
  result, the error and the state it leaves.
\<close>

datatype 'a run = Blocked | Panic | Returned 'a

definition pending_result :: "string \<Rightarrow> string \<Rightarrow> prediction \<Rightarrow> VideoResult" where
  "pending_result storageID predictionID prediction =
     \<lparr>res_ID = storageID, res_FilePath = [], res_Model = [], res_ModelName = [],
      res_PredictionID = predictionID, res_Parameters = [], res_FileSize = 0,
      res_Status = pred_Status prediction\<rparr>"

definition ContinueGeneration ::
  "golib \<Rightarrow> env \<Rightarrow> world \<Rightarrow> int \<Rightarrow> int option \<Rightarrow> string \<Rightarrow> string \<Rightarrow> int \<Rightarrow> event list
     \<Rightarrow> ((VideoResult option \<times> go_error option) \<times> world) run" where
  "ContinueGeneration L E w now ctx_deadline predictionID storageID waitTime evs =
     (case WaitForCompletion L now ctx_deadline waitTime evs of
        None \<Rightarrow> Blocked
      | Some (prediction, err, pollCount) \<Rightarrow>
          let w0 = w\<lparr>api_requests := api_requests w
                      + polls_sent L (wait_deadline now ctx_deadline waitTime) evs\<rparr>
          in case err of
               Some e \<Rightarrow>
                 (case prediction of
                    Some p \<Rightarrow> Returned ((Some (pending_result storageID predictionID p), Some e), w0)
                  | None \<Rightarrow> Returned ((None, Some e), w0))
             | None \<Rightarrow>
                 (case prediction of
                    None \<Rightarrow> Panic
                  | Some p \<Rightarrow>
                      if pred_Status p \<noteq> StatusSucceeded then
                        Returned ((Some (pending_result storageID predictionID p),
                                   Some (ErrorString (''generation failed with status: '' @ pred_Status p))), w0)
                      else
                        (case pred_Output p of
                           VStr outputURL \<Rightarrow>
                             (case SaveVideoFromURL E w0 outputURL storageID [] of
                                (Inl e, w1) \<Rightarrow> Returned ((None, Some (wrapf ''failed to save video: '' e)), w1)
                              | (Inr (videoPath, fileSize), w1) \<Rightarrow>
                                  let metadata =
                                        [(''prediction_id'', VStr predictionID),
                                         (''status'', VStr ''completed''),
                                         (''output_url'', VStr outputURL),
                                         (''output_path'', VStr videoPath),
                                         (''file_size'', VInt fileSize),
                                         (''completed_at'', VStr (now_rfc3339 E))];
                                      (err, w2) = SaveMetadata E w1 storageID metadata
                                  in Returned
                                       ((Some \<lparr>res_ID = storageID, res_FilePath = videoPath,
                                               res_Model = [], res_ModelName = [],
                                               res_PredictionID = predictionID, res_Parameters = [],
                                               res_FileSize = fileSize, res_Status = ''completed''\<rparr>,
                                         None), w2))
                         | out \<Rightarrow>
                             Returned ((None, Some (ErrorString (''unexpected output format: '' @ type_name out))), w0))))"

section \<open>The handler of \<open>continue_operation\<close>\<close>

text \<open>
  \<open>time.Duration\<close> is an \<open>int64\<close> of nanoseconds; \<open>*\<close> wraps around, comparisons are signed.
\<close>

type_synonym duration = "64 word"

definition Second :: duration where
  "Second = 1000000000"

text \<open>
  \<open>time.Duration(wt)\<close> for a \<open>float64\<close>: the fraction is discarded (truncation towards
  zero). Outside the range of \<open>int64\<close> Go leaves the result to the implementation: it is
  the parameter \<open>oor\<close>.
\<close>

definition truncate_float :: "real \<Rightarrow> int" where
  "truncate_float x = (if 0 \<le> x then \<lfloor>x\<rfloor> else \<lceil>x\<rceil>)"

definition int64_of_float64 :: "(real \<Rightarrow> duration) \<Rightarrow> real \<Rightarrow> duration" where
  "int64_of_float64 oor x =
     (let t = truncate_float x
      in if - (2 ^ 63) \<le> t \<and> t < 2 ^ 63 then word_of_int t else oor x)"

text \<open>
  The first lines of \<open>handleContinueOperation\<close> after the operation id:
  \<^verbatim>\<open>
  waitTime := 30 * time.Second
  if wt, ok := args["wait_time"].(float64); ok {
      waitTime = time.Duration(wt) * time.Second
      if waitTime < 5*time.Second { waitTime = 5 * time.Second }
      if waitTime > 60*time.Second { waitTime = 60 * time.Second }
  }
  \<close>
\<close>

definition clamp_wait :: "duration \<Rightarrow> duration" where
  "clamp_wait d =
     (let waitTime = d * Second;
          waitTime = (if word_sless waitTime (5 * Second) then 5 * Second else waitTime);
          waitTime = (if word_sless (60 * Second) waitTime then 60 * Second else waitTime)
      in waitTime)"

definition waitTime_of :: "(real \<Rightarrow> duration) \<Rightarrow> go_map \<Rightarrow> duration" where
  "waitTime_of oor args =
     (case map_of args ''wait_time'' of
        Some (VFloat64 wt) \<Rightarrow> clamp_wait (int64_of_float64 oor wt)
      | _ \<Rightarrow> 30 * Second)"

text \<open>
  The operation id: \<open>prediction_id\<close> if it is a non-empty string, else \<open>operation_id\<close> if
  it is one, else the request is refused.
\<close>

definition operationID_of :: "go_map \<Rightarrow> string option" where
  "operationID_of args =
     (let opID = (case map_of args ''operation_id'' of
                    Some (VStr opID) \<Rightarrow> (if opID \<noteq> [] then Some opID else None)
                  | _ \<Rightarrow> None)
      in case map_of args ''prediction_id'' of
           Some (VStr predID) \<Rightarrow> (if predID \<noteq> [] then Some predID else opID)
         | _ \<Rightarrow> opID)"

text \<open>
  \<open>findStorageIDForPrediction\<close>: the loop over the entries of the root folder.
  \<^verbatim>\<open>
  for _, entry := range entries {
      if !entry.IsDir() { continue }
      storageID := entry.Name()
      metadata, err := h.storage.LoadMetadata(storageID)
      if err != nil { continue }
      if metaPredID, ok := metadata["prediction_id"].(string); ok && metaPredID == predictionID {
          return storageID, nil } }
  return "", fmt.Errorf("storage ID not found for prediction %s", predictionID)
  \<close>
\<close>

fun scan_entries :: "world \<Rightarrow> string \<Rightarrow> (string \<times> dir_entry) list \<Rightarrow> string option" where
  "scan_entries w predictionID [] = None"
| "scan_entries w predictionID ((storageID, RegularFile) # es) = scan_entries w predictionID es"
| "scan_entries w predictionID ((storageID, Folder m fs) # es) =
     (case LoadMetadata w storageID of
        Inl err \<Rightarrow> scan_entries w predictionID es
      | Inr metadata \<Rightarrow>
          (case map_of metadata ''prediction_id'' of
             Some (VStr metaPredID) \<Rightarrow>
               if metaPredID = predictionID then Some storageID else scan_entries w predictionID es
           | _ \<Rightarrow> scan_entries w predictionID es))"

definition findStorageIDForPrediction :: "world \<Rightarrow> string \<Rightarrow> go_error + string" where
  "findStorageIDForPrediction w predictionID =
     (case readdir_error w of
        Some e \<Rightarrow> Inl (wrapf ''failed to read videos directory: '' (LibError e))
      | None \<Rightarrow>
          (case scan_entries w predictionID (entries w) of
             Some storageID \<Rightarrow> Inr storageID
           | None \<Rightarrow> Inl (ErrorString (''storage ID not found for prediction '' @ predictionID))))"

text \<open>
  \<^verbatim>\<open>
  storageID, err := h.findStorageIDForPrediction(operationID)
  if err != nil || storageID == "" {
      storageID = h.generateStorageID() }
  \<close>
\<close>

definition resolve_storageID :: "env \<Rightarrow> world \<Rightarrow> string \<Rightarrow> string \<times> world" where
  "resolve_storageID E w operationID =
     (case findStorageIDForPrediction w operationID of
        Inl err \<Rightarrow> GenerateStorageID E w
      | Inr storageID \<Rightarrow> if storageID = [] then GenerateStorageID E w else (storageID, w))"

text \<open>
  The responses of the tool, before they are rendered as JSON: \<open>h.errorResponse\<close> with the
  operation, the error type, the message and the details; \<open>BuildProcessingResponse\<close> with
  the operation, the prediction id, the storage id and the wait time in seconds;
  \<open>BuildSuccessResponse\<close> with the operation, the storage id, the paths, the model, the
  parameters, the metrics and the prediction id.
\<close>

datatype tool_response =
    ErrorResponse string string string go_map
  | ProcessingResponse string string string int
  | SuccessResponse string string "(string \<times> string) list" "(string \<times> string) list" go_map go_map string

text \<open>\<open>int(waitTime.Seconds())\<close> of a duration of whole seconds.\<close>

definition whole_seconds :: "duration \<Rightarrow> int" where
  "whole_seconds d = sint d div 1000000000"

text \<open>
  The \<open>completed\<close> branch: the response is put together from the metadata on disk. The
  metrics leave out \<open>generation_time\<close>, the reading of the wall clock.
\<close>

definition completed_paths :: "world \<Rightarrow> string \<Rightarrow> go_map \<Rightarrow> VideoResult \<Rightarrow> (string \<times> string) list" where
  "completed_paths w storageID metadata result =
     (let basePath = GetStoragePath w storageID
      in case map_of metadata ''paths'' of
           Some (VMap metadataPaths) \<Rightarrow>
             (let paths = (case map_of metadataPaths ''output'' of
                             Some (VStr output) \<Rightarrow> put ''output'' (path_join basePath output) []
                           | _ \<Rightarrow> [])
              in case map_of metadataPaths ''thumbnail'' of
                   Some (VStr thumbnail) \<Rightarrow> put ''thumbnail'' (path_join basePath thumbnail) paths
                 | _ \<Rightarrow> paths)
         | _ \<Rightarrow> put ''output'' (res_FilePath result) [])"

definition copy_string :: "go_map \<Rightarrow> string \<Rightarrow> go_map \<Rightarrow> go_map" where
  "copy_string metadata key m =
     (case map_of metadata key of Some (VStr v) \<Rightarrow> put key (VStr v) m | _ \<Rightarrow> m)"

definition completed_parameters :: "go_map \<Rightarrow> go_map" where
  "completed_parameters metadata =
     (let parameters = (case map_of metadata ''parameters'' of Some (VMap params) \<Rightarrow> params | _ \<Rightarrow> []);
          parameters = (case map_of metadata ''prompt'' of
                          Some (VStr prompt) \<Rightarrow>
                            if prompt \<noteq> [] then put ''prompt'' (VStr prompt) parameters else parameters
                        | _ \<Rightarrow> parameters);
          parameters = copy_string metadata ''resolution'' parameters;
          parameters = copy_string metadata ''aspect_ratio'' parameters;
          parameters = (case map_of metadata ''duration'' of
                          Some (VInt duration) \<Rightarrow> put ''duration'' (VInt duration) parameters
                        | _ \<Rightarrow> parameters)
      in copy_string metadata ''negative_prompt'' parameters)"

definition completed_model :: "go_map \<Rightarrow> VideoResult \<Rightarrow> (string \<times> string) list" where
  "completed_model metadata result =
     (let modelInfo = (case map_of metadata ''model'' of
                         Some (VStr modelID) \<Rightarrow> put ''id'' modelID []
                       | _ \<Rightarrow> [])
      in case map_of metadata ''model_name'' of
           Some (VStr modelName) \<Rightarrow> put ''name'' modelName modelInfo
         | _ \<Rightarrow> if res_ModelName result \<noteq> [] then put ''name'' (res_ModelName result) modelInfo
                else modelInfo)"

definition completed_metrics :: "go_map \<Rightarrow> VideoResult \<Rightarrow> go_map" where
  "completed_metrics metadata result =
     (let metrics = put ''file_size'' (VInt (res_FileSize result)) [];
          metrics = (case map_of metadata ''actual_resolution'' of
                       Some (VStr actualRes) \<Rightarrow>
                         if actualRes \<noteq> [] then put ''actual_resolution'' (VStr actualRes) metrics else metrics
                     | _ \<Rightarrow> metrics);
          metrics = (case map_of metadata ''actual_duration'' of
                       Some (VFloat64 actualDur) \<Rightarrow>
                         if 0 < actualDur then put ''actual_duration'' (VFloat64 actualDur) metrics else metrics
                     | _ \<Rightarrow> metrics);
          metrics = copy_string metadata ''generation_type'' metrics
      in copy_string metadata ''format'' metrics)"

definition handleContinueOperation ::
  "golib \<Rightarrow> (real \<Rightarrow> duration) \<Rightarrow> env \<Rightarrow> world \<Rightarrow> int \<Rightarrow> int option \<Rightarrow> go_map \<Rightarrow> event list
     \<Rightarrow> (tool_response \<times> world) run" where
  "handleContinueOperation L oor E w now ctx_deadline args evs =
     (case operationID_of args of
        None \<Rightarrow>
          Returned (ErrorResponse ''continue_operation'' ''invalid_parameters''
                      ''prediction_id or operation_id is required'' [], w)
      | Some operationID \<Rightarrow>
          let waitTime = waitTime_of oor args;
              (storageID, w1) = resolve_storageID E w operationID
          in case ContinueGeneration L E w1 now ctx_deadline operationID storageID (sint waitTime) evs of
               Blocked \<Rightarrow> Blocked
             | Panic \<Rightarrow> Panic
             | Returned ((result, Some err), w2) \<Rightarrow>
                 (case result of
                    Some res \<Rightarrow>
                      if res_Status res = ''processing'' then
                        Returned (ProcessingResponse ''continue_operation'' operationID (res_ID res)
                                    (whole_seconds waitTime), w2)
                      else
                        Returned (ErrorResponse ''continue_operation'' ''operation_failed'' (error_message err)
                                    [(''prediction_id'', VStr operationID)], w2)
                  | None \<Rightarrow>
                      Returned (ErrorResponse ''continue_operation'' ''operation_failed'' (error_message err)
                                  [(''prediction_id'', VStr operationID)], w2))
             | Returned ((None, None), w2) \<Rightarrow> Panic
             | Returned ((Some res, None), w2) \<Rightarrow>
                 if res_Status res = ''processing'' then
                   Returned (ProcessingResponse ''continue_operation'' operationID (res_ID res)
                               (whole_seconds waitTime), w2)
                 else if res_Status res = ''completed'' then
                   (let metadata = (case LoadMetadata w2 storageID of Inl e \<Rightarrow> [] | Inr m \<Rightarrow> m)
                    in Returned (SuccessResponse ''continue_operation'' (res_ID res)
                                   (completed_paths w2 storageID metadata res)
                                   (completed_model metadata res)
                                   (completed_parameters metadata)
                                   (completed_metrics metadata res)
                                   (res_PredictionID res), w2))
                 else
                   Returned (ErrorResponse ''continue_operation'' ''unexpected_status''
                               (''unexpected operation status: '' @ res_Status res)
                               [(''prediction_id'', VStr operationID), (''status'', VStr (res_Status res))], w2))"

section \<open>Notions the properties are stated with\<close>

text \<open>
  A tick that keeps \<open>WaitForCompletion\<close> polling: it fires no later than the deadline and
  its \<open>GetPrediction\<close> returns a prediction that is not succeeded, failed or canceled.
\<close>

definition pending_tick :: "golib \<Rightarrow> int \<Rightarrow> event \<Rightarrow> bool" where
  "pending_tick L deadline ev =
     (case ev of
        CtxDone e \<Rightarrow> False
      | Tick now r \<Rightarrow>
          \<not> deadline < now \<and>
          (case GetPrediction L r of
             Inl e \<Rightarrow> False
           | Inr p \<Rightarrow> pred_Status p \<noteq> StatusSucceeded \<and> pred_Status p \<noteq> StatusFailed
                      \<and> pred_Status p \<noteq> StatusCanceled))"

text \<open>
  What \<open>ContinueGeneration\<close> returns for a job the provider reports failed or canceled: a
  result that carries this status, with an error.
\<close>

definition remote_failure_outcome :: "VideoResult option \<times> go_error option \<Rightarrow> bool" where
  "remote_failure_outcome out =
     (case out of
        (Some res, Some e) \<Rightarrow> res_Status res = StatusFailed \<or> res_Status res = StatusCanceled
      | _ \<Rightarrow> False)"

definition is_string :: "go_value \<Rightarrow> bool" where
  "is_string v = (case v of VStr s \<Rightarrow> True | _ \<Rightarrow> False)"




definition stored_field :: "world \<Rightarrow> string \<Rightarrow> string \<Rightarrow> go_value option" where
  "stored_field w storageID key =
     (case LoadMetadata w storageID of Inr metadata \<Rightarrow> map_of metadata key | Inl err \<Rightarrow> None)"



section \<open>A scripted provider\<close>

text \<open>
  A stand-in for the libraries, the provider and the disk, to run the operations on: the
  bodies the provider sends are named by their status, formats have no verbs, durations
  are whole seconds below a minute.
\<close>

definition scripted_prediction :: "string \<Rightarrow> go_value \<Rightarrow> go_value \<Rightarrow> prediction" where
  "scripted_prediction st out err =
     \<lparr>pred_ID = ''pred1'', pred_Version = [], pred_Status = st, pred_Input = [],
      pred_Output = out, pred_Error = err, pred_Logs = [], pred_MetricsEnd = VNil,
      pred_CreatedAt = [], pred_StartedAt = [], pred_CompletedAt = [], pred_URLs = []\<rparr>"

definition scripted_decode :: "string \<Rightarrow> string + prediction" where
  "scripted_decode body =
     (if body = ''starting'' then Inr (scripted_prediction ''starting'' VNil VNil)
      else if body = ''processing'' then Inr (scripted_prediction ''processing'' VNil VNil)
      else if body = ''succeeded'' then
        Inr (scripted_prediction ''succeeded'' (VStr ''https://replicate.delivery/out.mp4'') VNil)
      else if body = ''succeeded-list'' then
        Inr (scripted_prediction ''succeeded'' (VSlice [VStr ''https://replicate.delivery/out.mp4'']) VNil)
      else if body = ''failed-string'' then
        Inr (scripted_prediction ''failed'' VNil (VStr ''out of memory''))
      else if body = ''failed-object'' then
        Inr (scripted_prediction ''failed'' VNil (VMap [(''message'', VStr ''out of memory'')]))
      else Inl ''invalid character'')"

definition scripted_lib :: golib where
  "scripted_lib =
     \<lparr>verbs0 = (\<lambda>s. s), show_v = (\<lambda>v. ''?''),
      show_duration = (\<lambda>d. show_nat (nat (d div 1000000000)) @ ''s''),
      decode_prediction = scripted_decode,
      decode_object = (\<lambda>body. if body = ''{detail: Insufficient credit}''
                               then Some [(''detail'', VStr ''Insufficient credit'')] else None),
      base64 = (\<lambda>s. s), detect_content_type = (\<lambda>s. ''application/octet-stream'')\<rparr>"

definition scripted_env :: env where
  "scripted_env =
     \<lparr>uuid_source = (\<lambda>n. if n = 0 then 0x12345678000040008000000000000001
                           else 0x12345678000040008000000000000002),
      http_get = (\<lambda>url. Response 200 ''VIDEO''),
      read_file = (\<lambda>path. if path = ''/tmp/dog.png'' then Inr ''PNG''
                           else Inl ''no such file or directory''),
      now_rfc3339 = ''2025-01-01T00:00:00Z'',
      write_error = None, copy_error = None\<rparr>"

definition empty_world :: world where
  "empty_world = \<lparr>rootFolder = ''/videos'', entries = [], readdir_error = None,
                   uuids_drawn = 0, api_requests = 0, downloads = 0\<rparr>"

definition cat_params :: VideoParams where
  "cat_params = \<lparr>Prompt = ''a cat'', Model = ''wan-t2v-fast'', Resolution = [], AspectRatio = [],
                  Filename = [], NegativePrompt = [], Duration = 0, ImagePath = [], NumFrames = 0,
                  FramesPerSecond = 0, GoFast = False, SampleShift = 0\<rparr>"


text \<open>The store after one submission, and after the \<open>ContinueGeneration\<close> that completes it.\<close>

definition submitted_world :: world where
  "submitted_world =
     snd (GenerateTextToVideo scripted_lib scripted_env empty_world cat_params (Response 201 ''starting''))"

definition completed_world :: world where
  "completed_world =
     (case ContinueGeneration scripted_lib scripted_env submitted_world 0 None ''pred1'' ''12345678''
             60000000000 [Tick 2000000001 (Response 200 ''succeeded'')] of
        Returned (out, w) \<Rightarrow> w
      | _ \<Rightarrow> submitted_world)"


section \<open>Lemmas on the storage\<close>













section \<open>Lemmas on the storage id\<close>

lemma hex_char_no_dash: "d < 16 \<Longrightarrow> hex_char d \<noteq> CHR ''-''"
proof -
  assume "d < 16"
  then have "''0123456789abcdef'' ! d \<in> set ''0123456789abcdef''"
    by (intro nth_mem) simp
  then show ?thesis unfolding hex_char_def by auto
qed

lemma hex32_no_dash: "c \<in> set (hex32 u) \<Longrightarrow> c \<noteq> CHR ''-''"
  by (auto simp: hex32_def nibble_def hex_char_no_dash)

lemma length_hex32: "length (hex32 u) = 32"
  by (simp add: hex32_def)

lemma filter_no_dash:
  "set xs \<subseteq> set (hex32 u) \<Longrightarrow> filter (\<lambda>c. c \<noteq> CHR ''-'') xs = xs"
  by (rule filter_True) (auto dest: hex32_no_dash)

lemma take8_uuid: "take 8 (remove_dashes (uuid_string u)) = take 8 (hex32 u)"
proof -
  have "filter (\<lambda>c. c \<noteq> CHR ''-'') (take 8 (hex32 u)) = take 8 (hex32 u)"
    by (rule filter_no_dash) (rule set_take_subset)
  then show ?thesis
    by (simp add: remove_dashes_def uuid_string_def Let_def length_hex32)
qed

text \<open>The storage id is the first eight hexadecimal digits of the UUID drawn.\<close>

lemma GenerateStorageID_hex:
  "GenerateStorageID E w =
     (take 8 (hex32 (uuid_source E (uuids_drawn w))), w\<lparr>uuids_drawn := Suc (uuids_drawn w)\<rparr>)"
  by (simp add: GenerateStorageID_def Let_def take8_uuid)

lemma first_id: "take 8 (hex32 (0x12345678000040008000000000000001 :: 128 word)) = ''12345678''"
  by (simp add: hex32_def nibble_def hex_char_def upt_rec)


section \<open>Lemmas on the polling loop\<close>

lemma status_consts_distinct:
  "StatusFailed \<noteq> StatusSucceeded" "StatusCanceled \<noteq> StatusSucceeded" "StatusCanceled \<noteq> StatusFailed"
  by (simp_all add: StatusFailed_def StatusSucceeded_def StatusCanceled_def)

lemma GetPrediction_sent:
  "GetPrediction L r = Inr p \<Longrightarrow> requests_sent r = 1"
  by (cases r) (auto simp: GetPrediction_def)


text \<open>Ticks that keep the loop polling are passed over, each counted.\<close>

lemma poll_loop_pending:
  "list_all (pending_tick L deadline) pre \<Longrightarrow>
   poll_loop L deadline timeout n (pre @ evs) = poll_loop L deadline timeout (n + length pre) evs"
proof (induction pre arbitrary: n)
  case Nil
  then show ?case by simp
next
  case (Cons ev pre)
  then show ?case
    by (cases ev) (auto simp: pending_tick_def split: sum.splits)
qed

lemma polls_sent_pending:
  "list_all (pending_tick L deadline) pre \<Longrightarrow>
   polls_sent L deadline (pre @ evs) = length pre + polls_sent L deadline evs"
proof (induction pre)
  case Nil
  then show ?case by simp
next
  case (Cons ev pre)
  then show ?case
    by (cases ev) (auto simp: pending_tick_def GetPrediction_sent split: sum.splits)
qed

lemma polls_sent_last:
  assumes "list_all (pending_tick L deadline) pre" "GetPrediction L r = Inr p"
    and "deadline < tnow \<or> pred_Status p = StatusSucceeded \<or> pred_Status p = StatusFailed
         \<or> pred_Status p = StatusCanceled"
  shows "polls_sent L deadline (pre @ Tick tnow r # evs) = Suc (length pre)"
  using assms by (auto simp: polls_sent_pending GetPrediction_sent)

lemma poll_loop_timeout:
  assumes "list_all (pending_tick L deadline) pre" "deadline < tnow" "GetPrediction L r = Inr p"
  shows "poll_loop L deadline timeout 0 (pre @ Tick tnow r # evs) =
         Some (Some p, Some (ErrorString (''operation timed out after '' @ show_duration L timeout)),
               Suc (length pre))"
  using assms by (simp add: poll_loop_pending)

lemma poll_loop_succeeded:
  assumes "list_all (pending_tick L deadline) pre" "\<not> deadline < tnow" "GetPrediction L r = Inr p"
    "pred_Status p = StatusSucceeded"
  shows "poll_loop L deadline timeout 0 (pre @ Tick tnow r # evs) = Some (Some p, None, Suc (length pre))"
  using assms by (simp add: poll_loop_pending)

lemma poll_loop_failed:
  assumes "list_all (pending_tick L deadline) pre" "\<not> deadline < tnow" "GetPrediction L r = Inr p"
    "pred_Status p = StatusFailed"
  shows "poll_loop L deadline timeout 0 (pre @ Tick tnow r # evs) =
         Some (Some p, Some (ErrorString (verbs0 L (failure_errMsg L (pred_Error p)))), Suc (length pre))"
  using assms by (simp add: poll_loop_pending status_consts_distinct)

text \<open>The loop never returns a nil prediction with a nil error: \<open>ContinueGeneration\<close> does not
  panic behind this client.\<close>

lemma poll_loop_never_nil_nil:
  "poll_loop L deadline timeout n evs \<noteq> Some (None, None, k)"
proof (induction evs arbitrary: n)
  case Nil
  then show ?case by simp
next
  case (Cons ev evs)
  then show ?case by (cases ev) (auto split: sum.splits)
qed

lemma WaitForCompletion_timeout:
  assumes "list_all (pending_tick L (wait_deadline now cd waitTime)) pre"
    and "wait_deadline now cd waitTime < tnow" "GetPrediction L r = Inr p"
  shows "WaitForCompletion L now cd waitTime (pre @ Tick tnow r # evs) =
         Some (Some p, Some (ErrorString (''operation timed out after '' @ show_duration L waitTime)),
               Suc (length pre))"
  using assms by (simp add: WaitForCompletion_def poll_loop_timeout)

section \<open>Lemmas on \<open>ContinueGeneration\<close>\<close>

lemma ContinueGeneration_timeout_run:
  assumes "list_all (pending_tick L (wait_deadline now cd waitTime)) pre"
    and "wait_deadline now cd waitTime < tnow" "GetPrediction L r = Inr p"
  shows "ContinueGeneration L E w now cd predictionID storageID waitTime (pre @ Tick tnow r # evs) =
         Returned ((Some (pending_result storageID predictionID p),
                    Some (ErrorString (''operation timed out after '' @ show_duration L waitTime))),
                   w\<lparr>api_requests := api_requests w + Suc (length pre)\<rparr>)"
  using WaitForCompletion_timeout [OF assms] polls_sent_last [OF assms(1,3), of tnow evs] assms(2)
  by (simp add: ContinueGeneration_def)

lemma ContinueGeneration_failed_run:
  assumes "list_all (pending_tick L (wait_deadline now cd waitTime)) pre"
    and "\<not> wait_deadline now cd waitTime < tnow" "GetPrediction L r = Inr p"
    and "pred_Status p = StatusFailed"
  shows "ContinueGeneration L E w now cd predictionID storageID waitTime (pre @ Tick tnow r # evs) =
         Returned ((Some (pending_result storageID predictionID p),
                    Some (ErrorString (verbs0 L (failure_errMsg L (pred_Error p))))),
                   w\<lparr>api_requests := api_requests w + Suc (length pre)\<rparr>)"
proof -
  have "WaitForCompletion L now cd waitTime (pre @ Tick tnow r # evs) =
        Some (Some p, Some (ErrorString (verbs0 L (failure_errMsg L (pred_Error p)))), Suc (length pre))"
    using assms by (simp add: WaitForCompletion_def poll_loop_failed)
  moreover have "polls_sent L (wait_deadline now cd waitTime) (pre @ Tick tnow r # evs) = Suc (length pre)"
    using polls_sent_last [OF assms(1,3)] assms(4) by simp
  ultimately show ?thesis by (simp add: ContinueGeneration_def)
qed

text \<open>A job the provider reports failed comes back as a result with the status \<open>failed\<close> and
  the provider's message as the error.\<close>

lemma failed_run_is_remote_failure:
  assumes "list_all (pending_tick L (wait_deadline now cd waitTime)) pre"
    and "\<not> wait_deadline now cd waitTime < tnow" "GetPrediction L r = Inr p"
    and "pred_Status p = StatusFailed"
  shows "\<exists>out w'. ContinueGeneration L E w now cd predictionID storageID waitTime (pre @ Tick tnow r # evs)
            = Returned (out, w') \<and> remote_failure_outcome out"
  using ContinueGeneration_failed_run [OF assms] assms(4)
  by (simp add: remote_failure_outcome_def pending_result_def)


section \<open>The scripted provider at work\<close>

lemma scripted_get:
  "GetPrediction scripted_lib (Response 200 ''processing'') = Inr (scripted_prediction ''processing'' VNil VNil)"
  "GetPrediction scripted_lib (Response 200 ''succeeded'') =
     Inr (scripted_prediction ''succeeded'' (VStr ''https://replicate.delivery/out.mp4'') VNil)"
  "GetPrediction scripted_lib (Response 200 ''succeeded-list'') =
     Inr (scripted_prediction ''succeeded'' (VSlice [VStr ''https://replicate.delivery/out.mp4'']) VNil)"
  "GetPrediction scripted_lib (Response 200 ''failed-string'') =
     Inr (scripted_prediction ''failed'' VNil (VStr ''out of memory''))"
  "GetPrediction scripted_lib (Response 200 ''failed-object'') =
     Inr (scripted_prediction ''failed'' VNil (VMap [(''message'', VStr ''out of memory'')]))"
  by (simp_all add: GetPrediction_def scripted_lib_def scripted_decode_def)

lemma scripted_create:
  "CreatePrediction scripted_lib (Response 201 ''starting'') = Inr (scripted_prediction ''starting'' VNil VNil)"
  by (simp add: CreatePrediction_def scripted_lib_def scripted_decode_def)

lemma scripted_status:
  "pred_Status (scripted_prediction ''succeeded'' out err) = StatusSucceeded"
  "pred_Status (scripted_prediction ''failed'' out err) = StatusFailed"
  "pred_Output (scripted_prediction st out err) = out"
  "pred_Error (scripted_prediction st out err) = err"
  "pred_Status (scripted_prediction ''processing'' out err) \<noteq> StatusSucceeded"
  "pred_Status (scripted_prediction ''processing'' out err) \<noteq> StatusFailed"
  "pred_Status (scripted_prediction ''processing'' out err) \<noteq> StatusCanceled"
  by (simp_all add: scripted_prediction_def StatusSucceeded_def StatusFailed_def StatusCanceled_def)



lemma cat_config:
  "GetModelConfig (Model cat_params) = Some
     \<lparr>cfg_ID = ''wan-video/wan-2.2-t2v-fast'', cfg_Name = ''Wan 2.2 Fast Text-to-Video'',
      cfg_Type = ''t2v'', cfg_DefaultRes = ''480p'', cfg_MaxDuration = 0,
      cfg_Features = [''fast'', ''affordable'', ''go_fast'']\<rparr>"
  "IsTextToVideoModel (Model cat_params)"
  by (simp_all add: GetModelConfig_def IsTextToVideoModel_def ModelConfigs_def cat_params_def)


lemma submitted_world_eq:
  "submitted_world =
     \<lparr>rootFolder = ''/videos'',
      entries = [(''12345678'', Folder (Yaml
         [(''operation'', VStr ''text_to_video''), (''model'', VStr ''wan-t2v-fast''),
          (''model_id'', VStr ''wan-video/wan-2.2-t2v-fast''), (''prompt'', VStr ''a cat''),
          (''parameters'', VMap [(''prompt'', VStr ''a cat''), (''resolution'', VStr ''480p''),
             (''go_fast'', VBool True), (''num_frames'', VInt 81), (''frames_per_second'', VInt 16),
             (''sample_shift'', VInt 12), (''optimize_prompt'', VBool False)]),
          (''prediction_id'', VStr ''pred1''), (''status'', VStr ''starting''),
          (''generated_at'', VStr ''2025-01-01T00:00:00Z'')]) [])],
      readdir_error = None, uuids_drawn = 1, api_requests = 1, downloads = 0\<rparr>"
  using cat_config
  by (simp add: submitted_world_def GenerateTextToVideo_def GenerateStorageID_hex scripted_create)
     (simp add: scripted_env_def empty_world_def first_id SaveMetadata_def CreateStorageFolder_def
        set_metadata_def cat_params_def buildTextToVideoInput_def scripted_prediction_def
        path_join_def Let_def)

lemma completed_world_eq:
  "completed_world =
     \<lparr>rootFolder = ''/videos'',
      entries = [(''12345678'', Folder (Yaml
         [(''prediction_id'', VStr ''pred1''), (''status'', VStr ''completed''),
          (''output_url'', VStr ''https://replicate.delivery/out.mp4''),
          (''output_path'', VStr ''/videos/12345678/video.mp4''),
          (''file_size'', VInt 5), (''completed_at'', VStr ''2025-01-01T00:00:00Z''),
          (''generated_at'', VStr ''2025-01-01T00:00:00Z'')]) [(''video.mp4'', ''VIDEO'')])],
      readdir_error = None, uuids_drawn = 1, api_requests = 2, downloads = 1\<rparr>"
  by (simp add: completed_world_def submitted_world_eq ContinueGeneration_def WaitForCompletion_def
        wait_deadline_def scripted_get scripted_status Let_def)
     (simp add: SaveVideoFromURL_def CreateStorageFolder_def scripted_env_def Let_def
        video_filename_def video_ext_def path_join_def write_file_def SaveMetadata_def set_metadata_def)

section \<open>The wait budget\<close>

lemma clamp_wait_range:
  "word_sle (5 * Second) (clamp_wait d) \<and> word_sle (clamp_wait d) (60 * Second)"
  by (simp add: clamp_wait_def Let_def Second_def word_sle_eq word_sless_alt)

text \<open>Whatever the arguments hold, the budget handed on lies between 5 and 60 seconds.\<close>

lemma waitTime_of_range:
  "word_sle (5 * Second) (waitTime_of oor args) \<and> word_sle (waitTime_of oor args) (60 * Second)"
proof (cases "map_of args ''wait_time''")
  case None
  then show ?thesis by (simp add: waitTime_of_def Second_def word_sle_eq)
next
  case (Some v)
  then show ?thesis
    by (cases v) (simp_all add: waitTime_of_def clamp_wait_range, simp_all add: Second_def word_sle_eq)
qed

lemma sint_times_Second:
  assumes "- 9223372036 \<le> sint d" "sint d \<le> 9223372036"
  shows "sint (d * Second) = sint d * 1000000000"
proof -
  have "sint (d * Second) = signed_take_bit 63 (sint d * sint Second)"
    by (simp add: sint_word_ariths)
  also have "sint Second = 1000000000" by (simp add: Second_def)
  also have "signed_take_bit 63 (sint d * 1000000000) = sint d * 1000000000"
    using assms by (intro signed_take_bit_int_eq_self) simp_all
  finally show ?thesis .
qed

text \<open>
  While the number of seconds times \<open>10^9\<close> fits an \<open>int64\<close>, the budget is the request moved
  into the interval: below 5 it is 5, above 60 it is 60.
\<close>

lemma clamp_wait_no_overflow:
  assumes "- 9223372036 \<le> sint d" "sint d \<le> 9223372036"
  shows "sint (clamp_wait d) = max 5000000000 (min 60000000000 (sint d * 1000000000))"
  using sint_times_Second [OF assms]
  by (simp add: clamp_wait_def Let_def word_sless_alt, simp add: Second_def)

lemma waitTime_of_default:
  "map_of args ''wait_time'' = None \<Longrightarrow> waitTime_of oor args = 30 * Second"
  by (simp add: waitTime_of_def)

lemma submitted_scan:
  "scan_entries submitted_world ''pred1'' (entries submitted_world) = Some ''12345678''"
  by (simp add: submitted_world_eq LoadMetadata_def metadata_at_def)

lemma resolve_submitted:
  "resolve_storageID E submitted_world ''pred1'' = (''12345678'', submitted_world)"
  using submitted_scan
  by (simp add: resolve_storageID_def findStorageIDForPrediction_def) (simp add: submitted_world_eq)

text \<open>
  C10. The budget is meant to be the request clamped to 5..60 seconds, a request above 60
  becoming 60. A \<open>wait_time\<close> of \<open>1e10\<close> seconds is above 60, and the budget handed to
  \<open>ContinueGeneration\<close> is 5 seconds: \<open>time.Duration(wt) * time.Second\<close> is \<open>10^19\<close>
  nanoseconds, which wraps around to a negative \<open>int64\<close> before the two comparisons. With
  the job still running, the handler gives up at the first tick after 5 seconds and
  reports a wait time of 5.
\<close>

theorem wait_time_overflow_gives_five_seconds:
  "waitTime_of oor [(''prediction_id'', VStr ''pred1''), (''wait_time'', VFloat64 10000000000)] = 5 * Second
   \<and> handleContinueOperation scripted_lib oor scripted_env submitted_world 0 None
        [(''prediction_id'', VStr ''pred1''), (''wait_time'', VFloat64 10000000000)]
        [Tick 6000000001 (Response 200 ''processing'')]
     = Returned (ProcessingResponse ''continue_operation'' ''pred1'' ''12345678'' 5,
                 submitted_world\<lparr>api_requests := 2\<rparr>)"
proof -
  have wt: "waitTime_of oor [(''prediction_id'', VStr ''pred1''), (''wait_time'', VFloat64 10000000000)]
            = 5 * Second"
    by (simp add: waitTime_of_def clamp_wait_def int64_of_float64_def truncate_float_def
      Second_def word_sless_alt)
  have s: "sint (5 * Second) = 5000000000" "whole_seconds (5 * Second) = 5"
    by (simp_all add: Second_def whole_seconds_def)
  have pre: "list_all (pending_tick scripted_lib (wait_deadline 0 None 5000000000)) []" by simp
  have dl: "wait_deadline 0 None 5000000000 < 6000000001" by (simp add: wait_deadline_def)
  have req: "api_requests submitted_world = 1" by (simp add: submitted_world_eq)
  have run: "ContinueGeneration scripted_lib scripted_env submitted_world 0 None ''pred1'' ''12345678''
               5000000000 [Tick 6000000001 (Response 200 ''processing'')] =
             Returned ((Some (pending_result ''12345678'' ''pred1'' (scripted_prediction ''processing'' VNil VNil)),
                        Some (ErrorString (''operation timed out after '' @ show_duration scripted_lib 5000000000))),
                       submitted_world\<lparr>api_requests := 2\<rparr>)"
    using ContinueGeneration_timeout_run [OF pre dl scripted_get(1), of scripted_env submitted_world
        "''pred1''" "''12345678''" "[]"] req
    by simp
  have op: "operationID_of [(''prediction_id'', VStr ''pred1''), (''wait_time'', VFloat64 10000000000)]
            = Some ''pred1''"
    by (simp add: operationID_of_def)
  show ?thesis
    using wt
    by (simp add: handleContinueOperation_def op resolve_submitted s run pending_result_def
        scripted_prediction_def)
qed

section \<open>Reading and writing records\<close>

text \<open>
  C7. When no \<open>metadata.yaml\<close> exists for a storage id (the folder is missing, or it holds no
  such file), \<open>LoadMetadata\<close> returns the empty map and no error.
\<close>

theorem LoadMetadata_missing:
  "metadata_at w storageID = NoFile \<Longrightarrow> LoadMetadata w storageID = Inr []"
  by (simp add: LoadMetadata_def)

theorem LoadMetadata_missing_witness:
  "metadata_at \<lparr>rootFolder = ''/videos'', entries = [(''0a1b2c3d'', Folder NoFile [])],
       readdir_error = None, uuids_drawn = 0, api_requests = 0, downloads = 0\<rparr> ''ffffffff'' = NoFile
   \<and> LoadMetadata \<lparr>rootFolder = ''/videos'', entries = [(''0a1b2c3d'', Folder NoFile [])],
       readdir_error = None, uuids_drawn = 0, api_requests = 0, downloads = 0\<rparr> ''ffffffff'' = Inr []"
proof -
  have h: "metadata_at \<lparr>rootFolder = ''/videos'', entries = [(''0a1b2c3d'', Folder NoFile [])],
       readdir_error = None, uuids_drawn = 0, api_requests = 0, downloads = 0\<rparr> ''ffffffff'' = NoFile"
    by (simp add: metadata_at_def)
  show ?thesis using h LoadMetadata_missing [OF h] by simp
qed

text \<open>
  C2. \<open>SaveMetadata\<close> is expected to merge a partial record into the one on disk, so that
  the completion write leaves the fields of the submission in place. It writes the new map
  over the file: after the submission of the scripted job and the \<open>ContinueGeneration\<close> that
  completes it, the record holds the completion fields, and the prompt, the model and the
  parameters that the submission had stored are gone (the prediction id is there because
  the completion writes it again).
\<close>

theorem completion_overwrites_submission:
  "stored_field submitted_world ''12345678'' ''prompt'' = Some (VStr ''a cat'')
   \<and> stored_field submitted_world ''12345678'' ''model'' = Some (VStr ''wan-t2v-fast'')
   \<and> stored_field completed_world ''12345678'' ''status'' = Some (VStr ''completed'')
   \<and> stored_field completed_world ''12345678'' ''prediction_id'' = Some (VStr ''pred1'')
   \<and> stored_field completed_world ''12345678'' ''prompt'' = None
   \<and> stored_field completed_world ''12345678'' ''model'' = None
   \<and> stored_field completed_world ''12345678'' ''parameters'' = None"
  by (simp add: submitted_world_eq completed_world_eq stored_field_def LoadMetadata_def metadata_at_def)

section \<open>Waiting for the provider\<close>





section \<open>Continuing a generation\<close>

text \<open>
  C8. When the job has succeeded and its output is not a string, \<open>ContinueGeneration\<close>
  returns no result and the error \<open>unexpected output format: \<close> with the type of the
  output. Nothing is downloaded and no folder or record changes. This is not what it
  returns for a failed or canceled job, which comes back with a result carrying that status.
\<close>

theorem malformed_output_is_refused:
  assumes "list_all (pending_tick L (wait_deadline now cd waitTime)) pre"
    and "\<not> wait_deadline now cd waitTime < tnow"
    and "GetPrediction L r = Inr p"
    and "pred_Status p = StatusSucceeded"
    and "\<not> is_string (pred_Output p)"
  shows "ContinueGeneration L E w now cd predictionID storageID waitTime (pre @ Tick tnow r # evs) =
           Returned ((None, Some (ErrorString (''unexpected output format: '' @ type_name (pred_Output p)))),
                     w\<lparr>api_requests := api_requests w + Suc (length pre)\<rparr>)
       \<and> downloads (w\<lparr>api_requests := api_requests w + Suc (length pre)\<rparr>) = downloads w
       \<and> entries (w\<lparr>api_requests := api_requests w + Suc (length pre)\<rparr>) = entries w
       \<and> \<not> remote_failure_outcome
             (None, Some (ErrorString (''unexpected output format: '' @ type_name (pred_Output p))))"
proof -
  have wait: "WaitForCompletion L now cd waitTime (pre @ Tick tnow r # evs) =
              Some (Some p, None, Suc (length pre))"
    using assms(1-4) by (simp add: WaitForCompletion_def poll_loop_succeeded)
  have sent: "polls_sent L (wait_deadline now cd waitTime) (pre @ Tick tnow r # evs) = Suc (length pre)"
    using polls_sent_last [OF assms(1,3)] assms(4) by simp
  show ?thesis
    using wait sent assms(4,5)
    by (cases "pred_Output p")
      (simp_all add: ContinueGeneration_def is_string_def remote_failure_outcome_def)
qed

theorem malformed_output_is_refused_witness:
  "ContinueGeneration scripted_lib scripted_env submitted_world 0 None ''pred1'' ''12345678'' 60000000000
     [Tick 2000000001 (Response 200 ''succeeded-list'')] =
     Returned ((None, Some (ErrorString ''unexpected output format: []interface {}'')),
               submitted_world\<lparr>api_requests := 2\<rparr>)"
proof -
  have pre: "list_all (pending_tick scripted_lib (wait_deadline 0 None 60000000000)) []"
    by simp
  have dl: "\<not> wait_deadline 0 None 60000000000 < 2000000001"
    by (simp add: wait_deadline_def)
  have ns: "\<not> is_string (pred_Output (scripted_prediction ''succeeded''
              (VSlice [VStr ''https://replicate.delivery/out.mp4'']) VNil))"
    by (simp add: is_string_def scripted_status)
  have req: "api_requests submitted_world = 1"
    by (simp add: submitted_world_eq)
  show ?thesis
    using malformed_output_is_refused [OF pre dl scripted_get(3) scripted_status(1) ns,
        of scripted_env submitted_world "''pred1''" "''12345678''" "[]"] req
    by (simp add: scripted_status)
qed




section \<open>Submitting\<close>

text \<open>
  C4, as stated: the error of a 402 response has a type or tag of its own. It is an
  \<open>*errors.errorString\<close>, as the error of any other refused submission is; the two differ
  in their message only.
\<close>

theorem billing_error_same_type:
  "CreatePrediction scripted_lib (Response 402 ''{detail: Insufficient credit}'') =
     Inl (ErrorString ''billing issue: Insufficient credit'')
   \<and> CreatePrediction scripted_lib (Response 500 ''Internal Server Error'') =
     Inl (ErrorString ''API error (status 500): Internal Server Error'')
   \<and> type_of_error (ErrorString ''billing issue: Insufficient credit'') =
     type_of_error (ErrorString ''API error (status 500): Internal Server Error'')"
  by (simp add: CreatePrediction_def scripted_lib_def show_nat.simps digit_char_def)

text \<open>
  C4, as the code has it: a 402 response whose body is an object with a string \<open>detail\<close>
  fails with the message \<open>billing issue: \<close> followed by that string, unchanged. A response
  with another status that is not 200 or 201 fails with the message \<open>API error (status N): \<close>
  followed by the body. The two errors have the same type and never the same message.
\<close>

theorem billing_error_by_message:
  assumes "decode_object L body = Some errorResp"
    and "map_of errorResp ''detail'' = Some (VStr detail)"
    and "code \<noteq> 402" "code \<noteq> 201" "code \<noteq> 200"
  shows "CreatePrediction L (Response 402 body) = Inl (ErrorString (''billing issue: '' @ detail))
       \<and> CreatePrediction L (Response code body') =
           Inl (ErrorString (''API error (status '' @ show_nat code @ ''): '' @ body'))
       \<and> type_of_error (ErrorString (''billing issue: '' @ detail)) =
           type_of_error (ErrorString (''API error (status '' @ show_nat code @ ''): '' @ body'))
       \<and> ''billing issue: '' @ detail \<noteq> ''API error (status '' @ show_nat code @ ''): '' @ body'"
  using assms by (simp add: CreatePrediction_def)

theorem billing_error_by_message_witness:
  "CreatePrediction scripted_lib (Response 402 ''{detail: Insufficient credit}'') =
     Inl (ErrorString ''billing issue: Insufficient credit'')
   \<and> CreatePrediction scripted_lib (Response 429 ''slow down'') =
     Inl (ErrorString ''API error (status 429): slow down'')"
proof -
  have d: "decode_object scripted_lib ''{detail: Insufficient credit}'' =
           Some [(''detail'', VStr ''Insufficient credit'')]"
    by (simp add: scripted_lib_def)
  have m: "map_of [(''detail'', VStr ''Insufficient credit'')] ''detail'' = Some (VStr ''Insufficient credit'')"
    by simp
  have c: "(429::nat) \<noteq> 402" "(429::nat) \<noteq> 201" "(429::nat) \<noteq> 200" by simp_all
  show ?thesis
    using billing_error_by_message [OF d m c, of "''slow down''"]
    by (simp add: show_nat.simps digit_char_def)
qed

text \<open>When the body of a 402 response gives no \<open>detail\<close>, the whole body is in the message.\<close>

lemma billing_error_raw_body:
  assumes "decode_object L body = None"
  shows "CreatePrediction L (Response 402 body) = Inl (ErrorString (''billing issue (status 402): '' @ body))"
  using assms by (simp add: CreatePrediction_def)






section \<open>Resolving the storage id\<close>






end
